theory Spec2Isabelle
  imports Main "HOL-Library.Word"
begin

section \<open>The graphics context consumed by gloo.py\<close>

text \<open>
  gloo.py wraps driver handles in objects and talks to the driver through pyglet's
  \<open>gl\<close> module. The driver is modelled as a recording context: it holds the bind
  slots, the sampling parameters of every texture name, the next name it will hand out,
  the status its framebuffer query reports, and the list of commands issued so far.
  The symbolic constants of \<open>gl\<close> that the module uses are the constructors of
  \<open>GLenum\<close>; a framebuffer status is the raw number the driver returns.
\<close>

type_synonym handle = "32 word"

datatype GLenum =
    GL_ARRAY_BUFFER | GL_ELEMENT_ARRAY_BUFFER
  | GL_FLOAT | GL_UNSIGNED_INT | GL_UNSIGNED_BYTE
  | GL_POINTS | GL_LINE_STRIP | GL_LINE_LOOP | GL_TRIANGLES | GL_TRIANGLE_FAN
  | GL_STATIC_DRAW
  | GL_TEXTURE_2D | GL_RGB
  | GL_TEXTURE_WRAP_S | GL_TEXTURE_WRAP_T | GL_TEXTURE_MIN_FILTER | GL_TEXTURE_MAG_FILTER
  | GL_CLAMP_TO_EDGE | GL_LINEAR
  | GL_FRAMEBUFFER_EXT | GL_COLOR_ATTACHMENT0_EXT

definition GL_FRAMEBUFFER_COMPLETE_EXT :: nat where
  "GL_FRAMEBUFFER_COMPLETE_EXT = 36053"

text \<open>The two ctypes element classes of \<open>_dtype_map\<close>, and an array built from one.\<close>

datatype ctype = GLfloat | GLuint

datatype 'a carray = CArray ctype "'a list"

fun ctype_size :: "ctype \<Rightarrow> nat" where
  "ctype_size GLfloat = 4"
| "ctype_size GLuint = 4"

fun sizeof :: "'a carray \<Rightarrow> nat" where
  "sizeof (CArray t xs) = ctype_size t * length xs"

datatype error =
    KeyError string
  | ValueError string
  | TypeError string
  | NameError string
  | AttributeError string
  | Exception string

text \<open>
  \<open>(self._dtype * len(value))(*value)\<close>: ctypes builds the array or raises TypeError
  on an element it cannot convert. Which Python values an element class converts is a
  fact about ctypes, so it is the parameter \<open>accepts\<close>.
\<close>

definition make_array :: "(ctype \<Rightarrow> 'a \<Rightarrow> bool) \<Rightarrow> ctype \<Rightarrow> 'a list \<Rightarrow> error + 'a carray" where
  "make_array accepts t xs =
     (if list_all (accepts t) xs then Inr (CArray t xs)
      else Inl (TypeError ''wrong type''))"

datatype ('a, 'p) gl_call =
    GenBuffers handle
  | BindBuffer GLenum handle
  | BufferData GLenum nat "'a carray" GLenum
  | DrawElements GLenum nat GLenum nat
  | DeleteBuffers handle
  | GenTextures handle
  | BindTexture GLenum handle
  | TexImage2D GLenum nat GLenum int int nat GLenum GLenum 'p
  | TexParameteri GLenum GLenum GLenum
  | DeleteTextures handle
  | GenFramebuffersEXT handle
  | CheckFramebufferStatusEXT GLenum
  | BindFramebufferEXT GLenum handle
  | FramebufferTexture2DEXT GLenum GLenum GLenum handle nat
  | DeleteFramebuffersEXT handle

record ('a, 'p) gl_context =
  bound :: "GLenum \<Rightarrow> handle"
  tex_parameters :: "handle \<Rightarrow> GLenum \<Rightarrow> GLenum option"
  next_name :: handle
  framebuffer_status :: nat
  calls :: "('a, 'p) gl_call list"

definition issue :: "('a, 'p) gl_call \<Rightarrow> ('a, 'p) gl_context \<Rightarrow> ('a, 'p) gl_context" where
  "issue c g = g\<lparr>calls := calls g @ [c]\<rparr>"

definition gen_name :: "(handle \<Rightarrow> ('a, 'p) gl_call) \<Rightarrow> ('a, 'p) gl_context
    \<Rightarrow> handle \<times> ('a, 'p) gl_context" where
  "gen_name c g = (next_name g, issue (c (next_name g)) (g\<lparr>next_name := next_name g + 1\<rparr>))"

definition bind_slot :: "GLenum \<Rightarrow> handle \<Rightarrow> ('a, 'p) gl_context \<Rightarrow> ('a, 'p) gl_context" where
  "bind_slot target h g = g\<lparr>bound := (bound g)(target := h)\<rparr>"

definition glGenBuffers :: "('a, 'p) gl_context \<Rightarrow> handle \<times> ('a, 'p) gl_context" where
  "glGenBuffers g = gen_name GenBuffers g"

definition glBindBuffer :: "GLenum \<Rightarrow> handle \<Rightarrow> ('a, 'p) gl_context \<Rightarrow> ('a, 'p) gl_context" where
  "glBindBuffer target h g = issue (BindBuffer target h) (bind_slot target h g)"

definition glBufferData :: "GLenum \<Rightarrow> nat \<Rightarrow> 'a carray \<Rightarrow> GLenum
    \<Rightarrow> ('a, 'p) gl_context \<Rightarrow> ('a, 'p) gl_context" where
  "glBufferData target nbytes arr usage g = issue (BufferData target nbytes arr usage) g"

definition glDrawElements :: "GLenum \<Rightarrow> nat \<Rightarrow> GLenum \<Rightarrow> nat
    \<Rightarrow> ('a, 'p) gl_context \<Rightarrow> ('a, 'p) gl_context" where
  "glDrawElements mode count ty indices g = issue (DrawElements mode count ty indices) g"

definition glDeleteBuffers :: "handle \<Rightarrow> ('a, 'p) gl_context \<Rightarrow> ('a, 'p) gl_context" where
  "glDeleteBuffers h g = issue (DeleteBuffers h) g"

definition glGenTextures :: "('a, 'p) gl_context \<Rightarrow> handle \<times> ('a, 'p) gl_context" where
  "glGenTextures g = gen_name GenTextures g"

definition glBindTexture :: "GLenum \<Rightarrow> handle \<Rightarrow> ('a, 'p) gl_context \<Rightarrow> ('a, 'p) gl_context" where
  "glBindTexture target h g = issue (BindTexture target h) (bind_slot target h g)"

definition glTexImage2D :: "GLenum \<Rightarrow> nat \<Rightarrow> GLenum \<Rightarrow> int \<Rightarrow> int \<Rightarrow> nat \<Rightarrow> GLenum \<Rightarrow> GLenum \<Rightarrow> 'p
    \<Rightarrow> ('a, 'p) gl_context \<Rightarrow> ('a, 'p) gl_context" where
  "glTexImage2D target level ifmt w h border fmt ty pixels g =
     issue (TexImage2D target level ifmt w h border fmt ty pixels) g"

text \<open>A sampling parameter is set on the texture currently bound to the target.\<close>

definition glTexParameteri :: "GLenum \<Rightarrow> GLenum \<Rightarrow> GLenum
    \<Rightarrow> ('a, 'p) gl_context \<Rightarrow> ('a, 'p) gl_context" where
  "glTexParameteri target pname v g =
     issue (TexParameteri target pname v)
       (g\<lparr>tex_parameters :=
            (tex_parameters g)(bound g target := (tex_parameters g (bound g target))(pname \<mapsto> v))\<rparr>)"

definition glDeleteTextures :: "handle \<Rightarrow> ('a, 'p) gl_context \<Rightarrow> ('a, 'p) gl_context" where
  "glDeleteTextures h g = issue (DeleteTextures h) g"

definition glGenFramebuffersEXT :: "('a, 'p) gl_context \<Rightarrow> handle \<times> ('a, 'p) gl_context" where
  "glGenFramebuffersEXT g = gen_name GenFramebuffersEXT g"

definition glCheckFramebufferStatusEXT :: "GLenum \<Rightarrow> ('a, 'p) gl_context
    \<Rightarrow> nat \<times> ('a, 'p) gl_context" where
  "glCheckFramebufferStatusEXT target g =
     (framebuffer_status g, issue (CheckFramebufferStatusEXT target) g)"

definition glBindFramebufferEXT :: "GLenum \<Rightarrow> handle
    \<Rightarrow> ('a, 'p) gl_context \<Rightarrow> ('a, 'p) gl_context" where
  "glBindFramebufferEXT target h g = issue (BindFramebufferEXT target h) (bind_slot target h g)"

definition glFramebufferTexture2DEXT :: "GLenum \<Rightarrow> GLenum \<Rightarrow> GLenum \<Rightarrow> handle \<Rightarrow> nat
    \<Rightarrow> ('a, 'p) gl_context \<Rightarrow> ('a, 'p) gl_context" where
  "glFramebufferTexture2DEXT target att textarget tex level g =
     issue (FramebufferTexture2DEXT target att textarget tex level) g"

definition glDeleteFramebuffersEXT :: "handle \<Rightarrow> ('a, 'p) gl_context \<Rightarrow> ('a, 'p) gl_context" where
  "glDeleteFramebuffersEXT h g = issue (DeleteFramebuffersEXT h) g"

section \<open>Module tables\<close>

definition buffer_type_map :: "(string \<times> GLenum) list" where
  "buffer_type_map = [(''data'', GL_ARRAY_BUFFER), (''elem'', GL_ELEMENT_ARRAY_BUFFER)]"

definition dtype_map :: "(string \<times> ctype \<times> GLenum) list" where
  "dtype_map = [(''float'', (GLfloat, GL_FLOAT)), (''uint'', (GLuint, GL_UNSIGNED_INT))]"

definition mode_map :: "(string \<times> GLenum) list" where
  "mode_map =
     [(''POINTS'', GL_POINTS), (''LINE_STRIP'', GL_LINE_STRIP), (''LINE_LOOP'', GL_LINE_LOOP),
      (''TRIANGLES'', GL_TRIANGLES), (''TRIANGLE_FAN'', GL_TRIANGLE_FAN)]"

section \<open>VertexBuffer\<close>

record 'a VertexBuffer =
  buffer_type :: string
  vb_type :: GLenum
  data_type :: string
  vb_dtype :: ctype
  vb_dtype_const :: GLenum
  vb_data :: "'a list option"
  vb_id :: handle

definition VertexBuffer_activate :: "'a VertexBuffer \<Rightarrow> ('a, 'p) gl_context \<Rightarrow> ('a, 'p) gl_context" where
  "VertexBuffer_activate self g = glBindBuffer (vb_type self) (vb_id self) g"

definition VertexBuffer_deactivate :: "'a VertexBuffer \<Rightarrow> ('a, 'p) gl_context \<Rightarrow> ('a, 'p) gl_context" where
  "VertexBuffer_deactivate self g = glBindBuffer (vb_type self) 0 g"

definition VertexBuffer_deactivate_all :: "('a, 'p) gl_context \<Rightarrow> ('a, 'p) gl_context" where
  "VertexBuffer_deactivate_all g =
     glBindBuffer GL_ELEMENT_ARRAY_BUFFER 0 (glBindBuffer GL_ARRAY_BUFFER 0 g)"

definition VertexBuffer_data :: "'a VertexBuffer \<Rightarrow> 'a list option" where
  "VertexBuffer_data self = vb_data self"

text \<open>
  The \<open>data\<close> setter. The array is built first; a TypeError there leaves the context
  and the object untouched. Otherwise: activate, upload, deactivate, then store.
\<close>

definition VertexBuffer_set_data :: "(ctype \<Rightarrow> 'a \<Rightarrow> bool) \<Rightarrow> 'a VertexBuffer \<Rightarrow> 'a list
    \<Rightarrow> ('a, 'p) gl_context \<Rightarrow> (error + 'a VertexBuffer) \<times> ('a, 'p) gl_context" where
  "VertexBuffer_set_data accepts self v g =
     (case make_array accepts (vb_dtype self) v of
        Inl e \<Rightarrow> (Inl e, g)
      | Inr value_typed \<Rightarrow>
          (Inr (self\<lparr>vb_data := Some v\<rparr>),
           VertexBuffer_deactivate self
             (glBufferData (vb_type self) (sizeof value_typed) value_typed GL_STATIC_DRAW
               (VertexBuffer_activate self g))))"

text \<open>
  The constructor: both table lookups come before the handle is generated, and a missing
  key raises KeyError with that key.
\<close>

definition VertexBuffer_init :: "(ctype \<Rightarrow> 'a \<Rightarrow> bool) \<Rightarrow> string \<Rightarrow> 'a list option \<Rightarrow> string
    \<Rightarrow> ('a, 'p) gl_context \<Rightarrow> (error + 'a VertexBuffer) \<times> ('a, 'p) gl_context" where
  "VertexBuffer_init accepts dtype data btype g =
     (case map_of buffer_type_map btype of
        None \<Rightarrow> (Inl (KeyError btype), g)
      | Some ty \<Rightarrow>
          (case map_of dtype_map dtype of
             None \<Rightarrow> (Inl (KeyError dtype), g)
           | Some (ct, const) \<Rightarrow>
               (case glGenBuffers g of
                  (h, g1) \<Rightarrow>
                    (let self = \<lparr>buffer_type = btype, vb_type = ty, data_type = dtype,
                                 vb_dtype = ct, vb_dtype_const = const,
                                 vb_data = None, vb_id = h\<rparr>
                     in case data of
                          None \<Rightarrow> (Inr self, g1)
                        | Some v \<Rightarrow> VertexBuffer_set_data accepts self v g1))))"

text \<open>
  \<open>draw\<close>: the mode lookup comes first, then activate; an index buffer draws
  \<open>len(self.data)\<close> elements and deactivates, any other buffer raises ValueError with
  the buffer still bound. \<open>len(None)\<close> raises TypeError at the same place.
\<close>

definition VertexBuffer_draw :: "'a VertexBuffer \<Rightarrow> string
    \<Rightarrow> ('a, 'p) gl_context \<Rightarrow> (error + unit) \<times> ('a, 'p) gl_context" where
  "VertexBuffer_draw self mode g =
     (case map_of mode_map mode of
        None \<Rightarrow> (Inl (KeyError mode), g)
      | Some draw_mode \<Rightarrow>
          (let g1 = VertexBuffer_activate self g
           in if buffer_type self = ''elem''
              then (case VertexBuffer_data self of
                      None \<Rightarrow> (Inl (TypeError ''object of type NoneType has no len()''), g1)
                    | Some xs \<Rightarrow>
                        (Inr (),
                         VertexBuffer_deactivate self
                           (glDrawElements draw_mode (length xs) (vb_dtype_const self) 0 g1)))
              else (Inl (ValueError ''cannot draw a data buffer.''), g1)))"

definition VertexBuffer_delete :: "'a VertexBuffer \<Rightarrow> ('a, 'p) gl_context \<Rightarrow> ('a, 'p) gl_context" where
  "VertexBuffer_delete self g = glDeleteBuffers (vb_id self) g"

text \<open>What the constructor establishes and the setter keeps: the cached constants agree
  with the tables.\<close>

definition VertexBuffer_inv :: "'a VertexBuffer \<Rightarrow> bool" where
  "VertexBuffer_inv self \<longleftrightarrow>
     map_of buffer_type_map (buffer_type self) = Some (vb_type self) \<and>
     map_of dtype_map (data_type self) = Some (vb_dtype self, vb_dtype_const self)"

section \<open>Texture\<close>

record 'p Texture =
  tex_id :: handle
  width :: int
  height :: int
  tex_data :: "'p option"

definition Texture_init :: "int \<Rightarrow> int \<Rightarrow> ('a, 'p) gl_context \<Rightarrow> 'p Texture \<times> ('a, 'p) gl_context" where
  "Texture_init w h g =
     (case glGenTextures g of
        (n, g1) \<Rightarrow> (\<lparr>tex_id = n, width = w, height = h, tex_data = None\<rparr>, g1))"

definition Texture_activate :: "'p Texture \<Rightarrow> ('a, 'p) gl_context \<Rightarrow> ('a, 'p) gl_context" where
  "Texture_activate self g = glBindTexture GL_TEXTURE_2D (tex_id self) g"

definition Texture_deactivate :: "'p Texture \<Rightarrow> ('a, 'p) gl_context \<Rightarrow> ('a, 'p) gl_context" where
  "Texture_deactivate self g = glBindTexture GL_TEXTURE_2D 0 g"

definition Texture_set_texture_parameters :: "('a, 'p) gl_context \<Rightarrow> ('a, 'p) gl_context" where
  "Texture_set_texture_parameters g =
     glTexParameteri GL_TEXTURE_2D GL_TEXTURE_MAG_FILTER GL_LINEAR
       (glTexParameteri GL_TEXTURE_2D GL_TEXTURE_MIN_FILTER GL_LINEAR
         (glTexParameteri GL_TEXTURE_2D GL_TEXTURE_WRAP_T GL_CLAMP_TO_EDGE
           (glTexParameteri GL_TEXTURE_2D GL_TEXTURE_WRAP_S GL_CLAMP_TO_EDGE g)))"

definition Texture_set_data :: "'p Texture \<Rightarrow> 'p \<Rightarrow> ('a, 'p) gl_context
    \<Rightarrow> 'p Texture \<times> ('a, 'p) gl_context" where
  "Texture_set_data self v g =
     (self\<lparr>tex_data := Some v\<rparr>,
      Texture_deactivate self
        (Texture_set_texture_parameters
          (glTexImage2D GL_TEXTURE_2D 0 GL_RGB (width self) (height self) 0
             GL_RGB GL_UNSIGNED_BYTE v
            (Texture_activate self g))))"

definition Texture_delete :: "'p Texture \<Rightarrow> ('a, 'p) gl_context \<Rightarrow> ('a, 'p) gl_context" where
  "Texture_delete self g = glDeleteTextures (tex_id self) g"

text \<open>The four sampling parameters of a texture name, in the order wrap S, wrap T,
  min filter, mag filter.\<close>

definition sampling :: "('a, 'p) gl_context \<Rightarrow> handle
    \<Rightarrow> GLenum option \<times> GLenum option \<times> GLenum option \<times> GLenum option" where
  "sampling g n =
     (tex_parameters g n GL_TEXTURE_WRAP_S, tex_parameters g n GL_TEXTURE_WRAP_T,
      tex_parameters g n GL_TEXTURE_MIN_FILTER, tex_parameters g n GL_TEXTURE_MAG_FILTER)"

section \<open>DummyFrameBuffer\<close>

text \<open>
  Every method takes \<open>*args, **kwargs\<close> and its body is \<open>pass\<close>: the positional
  arguments are a list, the keyword arguments an association list, the context comes back
  as it was and the method returns None.
\<close>

datatype DummyFrameBuffer = DummyFrameBuffer_object






section \<open>FrameBuffer\<close>

text \<open>
  The names bound at module level: the three imports, the three tables and the five
  classes. A name that is neither local nor here is looked up among the builtins, which
  have neither \<open>Gluint\<close> nor \<open>pointer\<close>, and the lookup raises NameError.
\<close>

definition module_globals :: "string list" where
  "module_globals =
     [''ABCMeta'', ''abstractmethod'', ''ct'', ''gl'',
      ''_buffer_type_map'', ''_dtype_map'', ''_mode_map'',
      ''GLObject'', ''VertexBuffer'', ''Texture'', ''DummyFrameBuffer'', ''FrameBuffer'']"

definition global_name :: "string \<Rightarrow> error + unit" where
  "global_name n = (if n \<in> set module_globals then Inr () else Inl (NameError n))"

text \<open>\<open>str\<close> of a non-negative integer, for the message of the status error.\<close>

fun str_nat :: "nat \<Rightarrow> string" where
  "str_nat n =
     (if n < 10 then [''0123456789'' ! n]
      else str_nat (n div 10) @ [''0123456789'' ! (n mod 10)])"

declare str_nat.simps [simp del]

record FrameBuffer =
  fb_id :: handle

definition FrameBuffer_check_completion_status :: "('a, 'p) gl_context
    \<Rightarrow> (error + unit) \<times> ('a, 'p) gl_context" where
  "FrameBuffer_check_completion_status g =
     (case glCheckFramebufferStatusEXT GL_FRAMEBUFFER_EXT g of
        (status, g1) \<Rightarrow>
          (if status \<noteq> GL_FRAMEBUFFER_COMPLETE_EXT
           then (Inl (Exception (''ERR '' @ str_nat status @ '': FrameBuffer could not be created.'')), g1)
           else (Inr (), g1)))"

text \<open>
  The constructor reads the global names \<open>Gluint\<close> and \<open>pointer\<close> before it reaches
  the driver; VertexBuffer and Texture write \<open>gl.GLuint\<close> and \<open>ct.pointer\<close> there.
\<close>

definition FrameBuffer_init :: "('a, 'p) gl_context \<Rightarrow> (error + FrameBuffer) \<times> ('a, 'p) gl_context" where
  "FrameBuffer_init g =
     (case global_name ''Gluint'' of
        Inl e \<Rightarrow> (Inl e, g)
      | Inr _ \<Rightarrow>
          (case global_name ''pointer'' of
             Inl e \<Rightarrow> (Inl e, g)
           | Inr _ \<Rightarrow>
               (case glGenFramebuffersEXT g of
                  (h, g1) \<Rightarrow>
                    (case FrameBuffer_check_completion_status g1 of
                       (Inl e, g2) \<Rightarrow> (Inl e, g2)
                     | (Inr _, g2) \<Rightarrow> (Inr \<lparr>fb_id = h\<rparr>, g2)))))"

definition FrameBuffer_activate :: "FrameBuffer \<Rightarrow> ('a, 'p) gl_context \<Rightarrow> ('a, 'p) gl_context" where
  "FrameBuffer_activate self g = glBindFramebufferEXT GL_FRAMEBUFFER_EXT (fb_id self) g"

definition FrameBuffer_deactivate :: "FrameBuffer \<Rightarrow> ('a, 'p) gl_context \<Rightarrow> ('a, 'p) gl_context" where
  "FrameBuffer_deactivate self g = glBindFramebufferEXT GL_FRAMEBUFFER_EXT (fb_id self) g"

definition FrameBuffer_attach_texture :: "FrameBuffer \<Rightarrow> 'p Texture
    \<Rightarrow> ('a, 'p) gl_context \<Rightarrow> ('a, 'p) gl_context" where
  "FrameBuffer_attach_texture self texture g =
     FrameBuffer_deactivate self
       (glFramebufferTexture2DEXT GL_FRAMEBUFFER_EXT GL_COLOR_ATTACHMENT0_EXT GL_TEXTURE_2D
          (tex_id texture) 0
         (FrameBuffer_activate self g))"

definition FrameBuffer_delete :: "FrameBuffer \<Rightarrow> ('a, 'p) gl_context \<Rightarrow> ('a, 'p) gl_context" where
  "FrameBuffer_delete self g = glDeleteFramebuffersEXT (fb_id self) g"

section \<open>Classes and attribute lookup\<close>

text \<open>
  The class statements of the module: the bases each one lists and the names its body
  defines. DummyFrameBuffer lists no base; the property \<open>id\<close> is defined in GLObject
  only and returns \<open>self._id\<close>.
\<close>

datatype pyclass =
    GLObject_class | VertexBuffer_class | Texture_class
  | DummyFrameBuffer_class | FrameBuffer_class

fun class_bases :: "pyclass \<Rightarrow> pyclass list" where
  "class_bases GLObject_class = []"
| "class_bases VertexBuffer_class = [GLObject_class]"
| "class_bases Texture_class = [GLObject_class]"
| "class_bases DummyFrameBuffer_class = []"
| "class_bases FrameBuffer_class = [GLObject_class]"

fun class_dict :: "pyclass \<Rightarrow> string list" where
  "class_dict GLObject_class = [''activate'', ''deactivate'', ''delete'', ''id'']"
| "class_dict VertexBuffer_class =
     [''__init__'', ''data'', ''activate'', ''deactivate'', ''deactivate_all'', ''draw'', ''delete'']"
| "class_dict Texture_class =
     [''__init__'', ''data'', ''_set_texture_parameters'', ''activate'', ''deactivate'', ''delete'']"
| "class_dict DummyFrameBuffer_class =
     [''__init__'', ''activate'', ''deactivate'', ''attach_texture'', ''delete'']"
| "class_dict FrameBuffer_class =
     [''__init__'', ''_check_completion_status'', ''activate'', ''deactivate'',
      ''attach_texture'', ''delete'', ''__del__'']"

text \<open>Method resolution: the class itself, then its bases (no base has a base of
  its own in this module).\<close>

definition mro :: "pyclass \<Rightarrow> pyclass list" where
  "mro c = c # class_bases c"

definition class_has :: "pyclass \<Rightarrow> string \<Rightarrow> bool" where
  "class_has c n \<longleftrightarrow> n \<in> set (concat (map class_dict (mro c)))"

datatype ('a, 'p) pyobject =
    VertexBuffer_obj "'a VertexBuffer"
  | Texture_obj "'p Texture"
  | DummyFrameBuffer_obj DummyFrameBuffer
  | FrameBuffer_obj FrameBuffer

fun class_of :: "('a, 'p) pyobject \<Rightarrow> pyclass" where
  "class_of (VertexBuffer_obj _) = VertexBuffer_class"
| "class_of (Texture_obj _) = Texture_class"
| "class_of (DummyFrameBuffer_obj _) = DummyFrameBuffer_class"
| "class_of (FrameBuffer_obj _) = FrameBuffer_class"

text \<open>The instance attribute \<open>_id\<close>, where \<open>__init__\<close> sets one.\<close>

fun attr_id :: "('a, 'p) pyobject \<Rightarrow> error + handle" where
  "attr_id (VertexBuffer_obj b) = Inr (vb_id b)"
| "attr_id (Texture_obj t) = Inr (tex_id t)"
| "attr_id (DummyFrameBuffer_obj _) = Inl (AttributeError ''_id'')"
| "attr_id (FrameBuffer_obj f) = Inr (fb_id f)"

text \<open>Reading \<open>obj.id\<close>: the property of GLObject when the class reaches it, else
  AttributeError.\<close>

definition GLObject_id :: "('a, 'p) pyobject \<Rightarrow> error + handle" where
  "GLObject_id obj =
     (if class_has (class_of obj) ''id'' then attr_id obj else Inl (AttributeError ''id''))"

section \<open>Observing the command list\<close>

fun is_DrawElements :: "('a, 'p) gl_call \<Rightarrow> bool" where
  "is_DrawElements (DrawElements _ _ _ _) = True"
| "is_DrawElements _ = False"

fun is_GenBuffers :: "('a, 'p) gl_call \<Rightarrow> bool" where
  "is_GenBuffers (GenBuffers _) = True"
| "is_GenBuffers _ = False"

fun is_BufferData :: "('a, 'p) gl_call \<Rightarrow> bool" where
  "is_BufferData (BufferData _ _ _ _) = True"
| "is_BufferData _ = False"

text \<open>The keys of \<open>_mode_map\<close>, \<open>_buffer_type_map\<close> and \<open>_dtype_map\<close>.\<close>

definition primitive_modes :: "string set" where
  "primitive_modes = {''POINTS'', ''LINE_STRIP'', ''LINE_LOOP'', ''TRIANGLES'', ''TRIANGLE_FAN''}"

definition buffer_kinds :: "string set" where
  "buffer_kinds = {''data'', ''elem''}"

definition element_types :: "string set" where
  "element_types = {''float'', ''uint''}"

text \<open>A context in which nothing is bound and nothing has been issued; the driver
  hands out names from 1 and reports the given framebuffer status.\<close>

definition initial_context :: "nat \<Rightarrow> ('a, 'p) gl_context" where
  "initial_context status =
     \<lparr>bound = (\<lambda>_. 0), tex_parameters = (\<lambda>_ _. None), next_name = 1,
      framebuffer_status = status, calls = []\<rparr>"

text \<open>ctypes takes Python integers for both element classes.\<close>

definition accepts_int :: "ctype \<Rightarrow> int \<Rightarrow> bool" where
  "accepts_int t x = True"

text \<open>Two buffers as the constructor leaves them in the initial context: a vertex-data
  buffer of floats without data, and an index buffer of unsigned integers holding
  \<open>[0, 1, 2]\<close>.\<close>

definition data_buffer_1 :: "int VertexBuffer" where
  "data_buffer_1 =
     \<lparr>buffer_type = ''data'', vb_type = GL_ARRAY_BUFFER, data_type = ''float'',
      vb_dtype = GLfloat, vb_dtype_const = GL_FLOAT, vb_data = None, vb_id = 1\<rparr>"

definition index_buffer_012 :: "int VertexBuffer" where
  "index_buffer_012 =
     \<lparr>buffer_type = ''elem'', vb_type = GL_ELEMENT_ARRAY_BUFFER, data_type = ''uint'',
      vb_dtype = GLuint, vb_dtype_const = GL_UNSIGNED_INT, vb_data = Some [0, 1, 2], vb_id = 1\<rparr>"




section \<open>Properties\<close>


lemmas gl_defs = issue_def gen_name_def bind_slot_def glGenBuffers_def glBindBuffer_def
  glBufferData_def glDrawElements_def glDeleteBuffers_def glGenTextures_def glBindTexture_def
  glTexImage2D_def glTexParameteri_def glDeleteTextures_def glGenFramebuffersEXT_def
  glCheckFramebufferStatusEXT_def glBindFramebufferEXT_def glFramebufferTexture2DEXT_def
  glDeleteFramebuffersEXT_def

lemma mode_lookup:
  "mode \<in> primitive_modes \<Longrightarrow> \<exists>m. map_of mode_map mode = Some m"
  by (auto simp: primitive_modes_def mode_map_def)

text \<open>
  C8. \<open>deactivate_all\<close> binds handle 0 into the array-buffer slot and into the
  element-buffer slot, whatever either slot held before: it issues exactly the two bind
  commands and both slots read 0 afterwards.
\<close>
theorem deactivate_all_clears_both_slots:
  "bound (VertexBuffer_deactivate_all g) GL_ARRAY_BUFFER = 0 \<and>
   bound (VertexBuffer_deactivate_all g) GL_ELEMENT_ARRAY_BUFFER = 0 \<and>
   calls (VertexBuffer_deactivate_all g) =
     calls g @ [BindBuffer GL_ARRAY_BUFFER 0, BindBuffer GL_ELEMENT_ARRAY_BUFFER 0]"
  by (simp add: VertexBuffer_deactivate_all_def gl_defs)

text \<open>
  C2. On a buffer whose \<open>buffer_type\<close> is \<open>'data'\<close>, \<open>draw\<close> with any of the five
  primitive modes raises the ValueError of the source (the spec's InvalidOperation); the
  only command issued is the bind of activate, so no indexed draw reaches the driver.
\<close>
theorem data_buffer_draw_fails:
  assumes "buffer_type self = ''data''" and "mode \<in> primitive_modes"
  shows "fst (VertexBuffer_draw self mode g) = Inl (ValueError ''cannot draw a data buffer.'') \<and>
         calls (snd (VertexBuffer_draw self mode g)) =
           calls g @ [BindBuffer (vb_type self) (vb_id self)] \<and>
         filter is_DrawElements (calls (snd (VertexBuffer_draw self mode g))) =
           filter is_DrawElements (calls g)"
proof -
  from assms(2) obtain m where "map_of mode_map mode = Some m"
    using mode_lookup by blast
  then show ?thesis
    using assms(1)
    by (simp add: VertexBuffer_draw_def VertexBuffer_activate_def gl_defs)
qed


text \<open>
  C6. After the \<open>data\<close> setter of a texture, in any context and whatever the sampling
  parameters of the texture were, they are wrap S and wrap T clamp-to-edge, min and mag
  filter linear; each call issues the four parameter commands again between the image
  upload and the unbind.
\<close>
theorem texture_set_data_sampling:
  "sampling (snd (Texture_set_data self P g)) (tex_id self) =
     (Some GL_CLAMP_TO_EDGE, Some GL_CLAMP_TO_EDGE, Some GL_LINEAR, Some GL_LINEAR) \<and>
   calls (snd (Texture_set_data self P g)) = calls g @
     [BindTexture GL_TEXTURE_2D (tex_id self),
      TexImage2D GL_TEXTURE_2D 0 GL_RGB (width self) (height self) 0 GL_RGB GL_UNSIGNED_BYTE P,
      TexParameteri GL_TEXTURE_2D GL_TEXTURE_WRAP_S GL_CLAMP_TO_EDGE,
      TexParameteri GL_TEXTURE_2D GL_TEXTURE_WRAP_T GL_CLAMP_TO_EDGE,
      TexParameteri GL_TEXTURE_2D GL_TEXTURE_MIN_FILTER GL_LINEAR,
      TexParameteri GL_TEXTURE_2D GL_TEXTURE_MAG_FILTER GL_LINEAR,
      BindTexture GL_TEXTURE_2D 0]"
  by (simp add: sampling_def Texture_set_data_def Texture_activate_def Texture_deactivate_def
      Texture_set_texture_parameters_def gl_defs)


lemma VertexBuffer_set_data_inv:
  "VertexBuffer_set_data accepts self v g = (Inr self', g') \<Longrightarrow> VertexBuffer_inv self
     \<Longrightarrow> VertexBuffer_inv self' \<and> buffer_type self' = buffer_type self"
  by (auto simp: VertexBuffer_set_data_def VertexBuffer_inv_def split: sum.splits)

lemma VertexBuffer_init_inv:
  assumes "VertexBuffer_init accepts dtype data btype g = (Inr self, g')"
  shows "VertexBuffer_inv self \<and> buffer_type self = btype \<and> data_type self = dtype"
  using assms
  by (auto simp: VertexBuffer_init_def VertexBuffer_set_data_def VertexBuffer_inv_def Let_def
      split: option.splits prod.splits sum.splits)

lemma data_kind_type:
  "VertexBuffer_inv self \<Longrightarrow> buffer_type self = ''data'' \<Longrightarrow> vb_type self = GL_ARRAY_BUFFER"
  by (simp add: VertexBuffer_inv_def buffer_type_map_def)



text \<open>
  C9. When \<open>draw\<close> with a valid primitive mode raises on a vertex-data buffer, activate
  has run and deactivate has not: the context in which the error propagates has the
  handle of the buffer in the array-buffer slot, and the bind is the only command issued.
\<close>
theorem data_buffer_draw_leaves_bound:
  assumes "VertexBuffer_inv self" and "buffer_type self = ''data''"
    and "mode \<in> primitive_modes"
  shows "fst (VertexBuffer_draw self mode g) = Inl (ValueError ''cannot draw a data buffer.'') \<and>
         calls (snd (VertexBuffer_draw self mode g)) =
           calls g @ [BindBuffer GL_ARRAY_BUFFER (vb_id self)] \<and>
         bound (snd (VertexBuffer_draw self mode g)) GL_ARRAY_BUFFER = vb_id self"
proof -
  from assms(3) obtain m where m: "map_of mode_map mode = Some m"
    using mode_lookup by blast
  have ty: "vb_type self = GL_ARRAY_BUFFER"
    using assms(1,2) by (rule data_kind_type)
  show ?thesis
    using m ty assms(2)
    by (simp add: VertexBuffer_draw_def VertexBuffer_activate_def gl_defs)
qed

lemma kind_lookup:
  "btype \<in> buffer_kinds \<Longrightarrow> \<exists>ty. map_of buffer_type_map btype = Some ty"
  by (auto simp: buffer_kinds_def buffer_type_map_def)

lemma kind_lookup_none:
  "btype \<notin> buffer_kinds \<Longrightarrow> map_of buffer_type_map btype = None"
  by (auto simp: buffer_kinds_def buffer_type_map_def)

lemma dtype_lookup:
  "dtype \<in> element_types \<Longrightarrow> \<exists>ct const. map_of dtype_map dtype = Some (ct, const)"
  by (auto simp: element_types_def dtype_map_def)

lemma dtype_lookup_none:
  "dtype \<notin> element_types \<Longrightarrow> map_of dtype_map dtype = None"
  by (auto simp: element_types_def dtype_map_def)

lemma init_bad_kind:
  "btype \<notin> buffer_kinds \<Longrightarrow>
     VertexBuffer_init accepts dtype data btype g = (Inl (KeyError btype), g)"
  by (simp add: VertexBuffer_init_def kind_lookup_none)

lemma init_bad_dtype:
  assumes "btype \<in> buffer_kinds" and "dtype \<notin> element_types"
  shows "VertexBuffer_init accepts dtype data btype g = (Inl (KeyError dtype), g)"
proof -
  from assms(1) obtain ty where "map_of buffer_type_map btype = Some ty"
    using kind_lookup by blast
  then show ?thesis
    using assms(2) by (simp add: VertexBuffer_init_def dtype_lookup_none)
qed

lemma init_valid_gen:
  assumes "btype \<in> buffer_kinds" and "dtype \<in> element_types"
  shows "filter is_GenBuffers (calls (snd (VertexBuffer_init accepts dtype data btype g))) =
           filter is_GenBuffers (calls g) @ [GenBuffers (next_name g)]"
proof -
  from assms(1) obtain ty where ty: "map_of buffer_type_map btype = Some ty"
    using kind_lookup by blast
  from assms(2) obtain ct const where ct: "map_of dtype_map dtype = Some (ct, const)"
    using dtype_lookup by blast
  show ?thesis
    using ty ct
    by (cases data)
      (auto simp: VertexBuffer_init_def VertexBuffer_set_data_def make_array_def Let_def
        VertexBuffer_activate_def VertexBuffer_deactivate_def gl_defs)
qed

lemma init_valid_no_data:
  assumes "btype \<in> buffer_kinds" and "dtype \<in> element_types"
  shows "filter is_BufferData (calls (snd (VertexBuffer_init accepts dtype None btype g))) =
           filter is_BufferData (calls g)"
proof -
  from assms(1) obtain ty where ty: "map_of buffer_type_map btype = Some ty"
    using kind_lookup by blast
  from assms(2) obtain ct const where ct: "map_of dtype_map dtype = Some (ct, const)"
    using dtype_lookup by blast
  show ?thesis
    using ty ct by (simp add: VertexBuffer_init_def gl_defs)
qed

lemma init_valid_data:
  assumes "map_of buffer_type_map btype = Some ty"
    and "map_of dtype_map dtype = Some (ct, const)"
    and "list_all (accepts ct) v"
  shows "filter is_BufferData (calls (snd (VertexBuffer_init accepts dtype (Some v) btype g))) =
           filter is_BufferData (calls g) @
             [BufferData ty (sizeof (CArray ct v)) (CArray ct v) GL_STATIC_DRAW]"
  using assms
  by (simp add: VertexBuffer_init_def VertexBuffer_set_data_def make_array_def Let_def
      VertexBuffer_activate_def VertexBuffer_deactivate_def gl_defs)

text \<open>
  C10. The constructor of VertexBuffer raises KeyError with the context unchanged (no
  handle generated) when the kind is not a key of \<open>_buffer_type_map\<close>, or when the kind
  is one and the element type is not a key of \<open>_dtype_map\<close>. With both valid it generates
  exactly one handle; it uploads nothing when no initial data is given, and uploads the
  initial data once when data is given and ctypes converts it.
\<close>
theorem VertexBuffer_init_allocation:
  "(btype \<notin> buffer_kinds \<longrightarrow>
      VertexBuffer_init accepts dtype data btype g = (Inl (KeyError btype), g)) \<and>
   (btype \<in> buffer_kinds \<and> dtype \<notin> element_types \<longrightarrow>
      VertexBuffer_init accepts dtype data btype g = (Inl (KeyError dtype), g)) \<and>
   (btype \<in> buffer_kinds \<and> dtype \<in> element_types \<longrightarrow>
      filter is_GenBuffers (calls (snd (VertexBuffer_init accepts dtype data btype g))) =
        filter is_GenBuffers (calls g) @ [GenBuffers (next_name g)] \<and>
      (data = None \<longrightarrow>
         filter is_BufferData (calls (snd (VertexBuffer_init accepts dtype data btype g))) =
           filter is_BufferData (calls g)) \<and>
      (\<forall>v ty ct const.
         data = Some v \<and> map_of buffer_type_map btype = Some ty \<and>
         map_of dtype_map dtype = Some (ct, const) \<and> list_all (accepts ct) v \<longrightarrow>
         filter is_BufferData (calls (snd (VertexBuffer_init accepts dtype data btype g))) =
           filter is_BufferData (calls g) @
             [BufferData ty (sizeof (CArray ct v)) (CArray ct v) GL_STATIC_DRAW]))"
proof (intro conjI impI allI)
  assume "btype \<notin> buffer_kinds"
  then show "VertexBuffer_init accepts dtype data btype g = (Inl (KeyError btype), g)"
    by (rule init_bad_kind)
next
  assume "btype \<in> buffer_kinds \<and> dtype \<notin> element_types"
  then show "VertexBuffer_init accepts dtype data btype g = (Inl (KeyError dtype), g)"
    by (simp add: init_bad_dtype)
next
  assume "btype \<in> buffer_kinds \<and> dtype \<in> element_types"
  then show "filter is_GenBuffers (calls (snd (VertexBuffer_init accepts dtype data btype g))) =
      filter is_GenBuffers (calls g) @ [GenBuffers (next_name g)]"
    by (simp add: init_valid_gen)
next
  assume "btype \<in> buffer_kinds \<and> dtype \<in> element_types" and "data = None"
  then show "filter is_BufferData (calls (snd (VertexBuffer_init accepts dtype data btype g))) =
      filter is_BufferData (calls g)"
    by (simp add: init_valid_no_data)
next
  fix v ty ct const
  assume "data = Some v \<and> map_of buffer_type_map btype = Some ty \<and>
    map_of dtype_map dtype = Some (ct, const) \<and> list_all (accepts ct) v"
  then show "filter is_BufferData (calls (snd (VertexBuffer_init accepts dtype data btype g))) =
      filter is_BufferData (calls g) @
        [BufferData ty (sizeof (CArray ct v)) (CArray ct v) GL_STATIC_DRAW]"
    by (simp add: init_valid_data)
qed

lemma str_nat_example: "str_nat 36054 = ''36054''"
  by (simp add: str_nat.simps)

lemma check_completion_status_result:
  "fst (FrameBuffer_check_completion_status g) =
     (if framebuffer_status g = GL_FRAMEBUFFER_COMPLETE_EXT then Inr ()
      else Inl (Exception (''ERR '' @ str_nat (framebuffer_status g) @
                  '': FrameBuffer could not be created.'')))"
  by (simp add: FrameBuffer_check_completion_status_def gl_defs)

lemma FrameBuffer_init_raises_NameError:
  "FrameBuffer_init g = (Inl (NameError ''Gluint''), g)"
  by (simp add: FrameBuffer_init_def global_name_def module_globals_def)

text \<open>
  C1. In a context whose status query would report complete, the constructor of
  FrameBuffer does not return an object: reading the global name \<open>Gluint\<close> raises
  NameError before any command is issued, and the context is left as it was.
\<close>
theorem FrameBuffer_init_complete_status_fails:
  "FrameBuffer_init (initial_context GL_FRAMEBUFFER_COMPLETE_EXT :: (int, nat list) gl_context) =
     (Inl (NameError ''Gluint''), initial_context GL_FRAMEBUFFER_COMPLETE_EXT)"
  by (simp add: FrameBuffer_init_def global_name_def module_globals_def)

lemma VertexBuffer_deactivate_unbinds:
  "bound (VertexBuffer_deactivate self g) (vb_type self) = 0"
  by (simp add: VertexBuffer_deactivate_def gl_defs)

lemma Texture_deactivate_unbinds:
  "bound (Texture_deactivate self g) GL_TEXTURE_2D = 0"
  by (simp add: Texture_deactivate_def gl_defs)

lemma FrameBuffer_deactivate_rebinds_self:
  "bound (FrameBuffer_deactivate self g) GL_FRAMEBUFFER_EXT = fb_id self"
  by (simp add: FrameBuffer_deactivate_def gl_defs)

text \<open>
  C4. \<open>deactivate\<close> of a FrameBuffer with handle 1, after \<open>activate\<close> in the initial
  context, leaves handle 1 in the framebuffer slot, not 0.
\<close>
theorem FrameBuffer_deactivate_keeps_handle_bound:
  "bound (FrameBuffer_deactivate \<lparr>fb_id = 1\<rparr>
       (FrameBuffer_activate \<lparr>fb_id = 1\<rparr>
          (initial_context GL_FRAMEBUFFER_COMPLETE_EXT :: (int, nat list) gl_context)))
     GL_FRAMEBUFFER_EXT = 1 \<and> (1 :: handle) \<noteq> 0"
  by (simp add: FrameBuffer_deactivate_def FrameBuffer_activate_def gl_defs)


lemma FrameBuffer_has_id:
  "class_has FrameBuffer_class ''id'' \<and> GLObject_id (FrameBuffer_obj f) = Inr (fb_id f)"
  by (simp add: GLObject_id_def class_has_def mro_def)


lemma init_data_buffer_1:
  "fst (VertexBuffer_init accepts_int ''float'' None ''data''
         (initial_context 0 :: (int, nat list) gl_context)) = Inr data_buffer_1"
  by (simp add: VertexBuffer_init_def buffer_type_map_def dtype_map_def data_buffer_1_def
      initial_context_def gl_defs)

lemma init_index_buffer_012:
  "fst (VertexBuffer_init accepts_int ''uint'' (Some [0, 1, 2]) ''elem''
         (initial_context 0 :: (int, nat list) gl_context)) = Inr index_buffer_012"
  by (simp add: VertexBuffer_init_def VertexBuffer_set_data_def make_array_def accepts_int_def
      buffer_type_map_def dtype_map_def index_buffer_012_def initial_context_def Let_def gl_defs)

lemma initial_context_calls: "calls (initial_context s) = []"
  by (simp add: initial_context_def)

lemma data_buffer_1_fields:
  "buffer_type data_buffer_1 = ''data''" "vb_type data_buffer_1 = GL_ARRAY_BUFFER"
  "vb_id data_buffer_1 = 1" "VertexBuffer_inv data_buffer_1"
  by (simp_all add: data_buffer_1_def VertexBuffer_inv_def buffer_type_map_def dtype_map_def)


theorem data_buffer_draw_fails_witness:
  "buffer_type data_buffer_1 = ''data'' \<and> ''TRIANGLES'' \<in> primitive_modes \<and>
   fst (VertexBuffer_draw data_buffer_1 ''TRIANGLES''
          (initial_context 0 :: (int, nat list) gl_context)) =
     Inl (ValueError ''cannot draw a data buffer.'') \<and>
   calls (snd (VertexBuffer_draw data_buffer_1 ''TRIANGLES''
          (initial_context 0 :: (int, nat list) gl_context))) =
     [BindBuffer GL_ARRAY_BUFFER 1]"
proof -
  have k: "buffer_type data_buffer_1 = ''data''"
    by (rule data_buffer_1_fields)
  have m: "''TRIANGLES'' \<in> primitive_modes"
    by (simp add: primitive_modes_def)
  note r = data_buffer_draw_fails [OF k m, of "initial_context 0 :: (int, nat list) gl_context"]
  from r have "calls (snd (VertexBuffer_draw data_buffer_1 ''TRIANGLES''
          (initial_context 0 :: (int, nat list) gl_context))) = [BindBuffer GL_ARRAY_BUFFER 1]"
    by (simp only: data_buffer_1_fields initial_context_calls append_Nil)
  with k m r show ?thesis by blast
qed




theorem data_buffer_draw_leaves_bound_witness:
  "VertexBuffer_inv data_buffer_1 \<and> buffer_type data_buffer_1 = ''data'' \<and>
   ''POINTS'' \<in> primitive_modes \<and>
   fst (VertexBuffer_draw data_buffer_1 ''POINTS''
          (initial_context 0 :: (int, nat list) gl_context)) =
     Inl (ValueError ''cannot draw a data buffer.'') \<and>
   bound (snd (VertexBuffer_draw data_buffer_1 ''POINTS''
          (initial_context 0 :: (int, nat list) gl_context))) GL_ARRAY_BUFFER = 1"
proof -
  have i: "VertexBuffer_inv data_buffer_1"
    by (rule data_buffer_1_fields)
  have k: "buffer_type data_buffer_1 = ''data''"
    by (rule data_buffer_1_fields)
  have m: "''POINTS'' \<in> primitive_modes"
    by (simp add: primitive_modes_def)
  note r = data_buffer_draw_leaves_bound [OF i k m,
      of "initial_context 0 :: (int, nat list) gl_context"]
  from r have b: "bound (snd (VertexBuffer_draw data_buffer_1 ''POINTS''
          (initial_context 0 :: (int, nat list) gl_context))) GL_ARRAY_BUFFER = 1"
    by (simp only: data_buffer_1_fields)
  from i k m r b show ?thesis by blast
qed


lemma initial_context_fields:
  "calls (initial_context s) = []" "next_name (initial_context s) = 1"
  by (simp_all add: initial_context_def)

theorem VertexBuffer_init_allocation_witness:
  "''index'' \<notin> buffer_kinds \<and>
   VertexBuffer_init accepts_int ''uint'' (Some [0, 1, 2]) ''index''
       (initial_context 0 :: (int, nat list) gl_context) =
     (Inl (KeyError ''index''), initial_context 0) \<and>
   ''data'' \<in> buffer_kinds \<and> ''double'' \<notin> element_types \<and>
   VertexBuffer_init accepts_int ''double'' (Some [0, 1, 2]) ''data''
       (initial_context 0 :: (int, nat list) gl_context) =
     (Inl (KeyError ''double''), initial_context 0) \<and>
   ''elem'' \<in> buffer_kinds \<and> ''uint'' \<in> element_types \<and>
   filter is_GenBuffers (calls (snd (VertexBuffer_init accepts_int ''uint'' None ''elem''
       (initial_context 0 :: (int, nat list) gl_context)))) = [GenBuffers 1] \<and>
   filter is_BufferData (calls (snd (VertexBuffer_init accepts_int ''uint'' None ''elem''
       (initial_context 0 :: (int, nat list) gl_context)))) = [] \<and>
   filter is_GenBuffers (calls (snd (VertexBuffer_init accepts_int ''uint'' (Some [0, 1, 2]) ''elem''
       (initial_context 0 :: (int, nat list) gl_context)))) = [GenBuffers 1] \<and>
   filter is_BufferData (calls (snd (VertexBuffer_init accepts_int ''uint'' (Some [0, 1, 2]) ''elem''
       (initial_context 0 :: (int, nat list) gl_context)))) =
     [BufferData GL_ELEMENT_ARRAY_BUFFER 12 (CArray GLuint [0, 1, 2]) GL_STATIC_DRAW]"
proof -
  let ?g = "initial_context 0 :: (int, nat list) gl_context"
  have k1: "''index'' \<notin> buffer_kinds"
    by (simp add: buffer_kinds_def)
  have k2: "''data'' \<in> buffer_kinds" and k3: "''elem'' \<in> buffer_kinds"
    by (simp_all add: buffer_kinds_def)
  have d2: "''double'' \<notin> element_types" and d3: "''uint'' \<in> element_types"
    by (simp_all add: element_types_def)
  have ty: "map_of buffer_type_map ''elem'' = Some GL_ELEMENT_ARRAY_BUFFER"
    by (simp add: buffer_type_map_def)
  have ct: "map_of dtype_map ''uint'' = Some (GLuint, GL_UNSIGNED_INT)"
    by (simp add: dtype_map_def)
  have ok: "list_all (accepts_int GLuint) [0, 1, 2]"
    by (simp add: accepts_int_def)
  have sz: "sizeof (CArray GLuint [0, 1, 2 :: int]) = 12"
    by simp
  have e0: "filter is_GenBuffers ([] :: (int, nat list) gl_call list) = []"
    and e1: "filter is_BufferData ([] :: (int, nat list) gl_call list) = []"
    by simp_all
  note a = VertexBuffer_init_allocation [where accepts = accepts_int and dtype = "''uint''"
      and data = "Some [0, 1, 2]" and btype = "''index''" and g = ?g]
  note b = VertexBuffer_init_allocation [where accepts = accepts_int and dtype = "''double''"
      and data = "Some [0, 1, 2]" and btype = "''data''" and g = ?g]
  note c = VertexBuffer_init_allocation [where accepts = accepts_int and dtype = "''uint''"
      and data = None and btype = "''elem''" and g = ?g]
  note d = VertexBuffer_init_allocation [where accepts = accepts_int and dtype = "''uint''"
      and data = "Some [0, 1, 2]" and btype = "''elem''" and g = ?g]
  from a k1 have r1: "VertexBuffer_init accepts_int ''uint'' (Some [0, 1, 2]) ''index'' ?g =
      (Inl (KeyError ''index''), ?g)"
    by blast
  from b k2 d2 have r2: "VertexBuffer_init accepts_int ''double'' (Some [0, 1, 2]) ''data'' ?g =
      (Inl (KeyError ''double''), ?g)"
    by blast
  from c k3 d3 have r3: "filter is_GenBuffers
      (calls (snd (VertexBuffer_init accepts_int ''uint'' None ''elem'' ?g))) =
      filter is_GenBuffers (calls ?g) @ [GenBuffers (next_name ?g)]"
    by blast
  from c k3 d3 have r4: "filter is_BufferData
      (calls (snd (VertexBuffer_init accepts_int ''uint'' None ''elem'' ?g))) =
      filter is_BufferData (calls ?g)"
    by blast
  from d k3 d3 have r5: "filter is_GenBuffers
      (calls (snd (VertexBuffer_init accepts_int ''uint'' (Some [0, 1, 2]) ''elem'' ?g))) =
      filter is_GenBuffers (calls ?g) @ [GenBuffers (next_name ?g)]"
    by blast
  from d k3 d3 ty ct ok have r6: "filter is_BufferData
      (calls (snd (VertexBuffer_init accepts_int ''uint'' (Some [0, 1, 2]) ''elem'' ?g))) =
      filter is_BufferData (calls ?g) @
        [BufferData GL_ELEMENT_ARRAY_BUFFER (sizeof (CArray GLuint [0, 1, 2 :: int]))
           (CArray GLuint [0, 1, 2]) GL_STATIC_DRAW]"
    by blast
  show ?thesis
    using k1 r1 k2 d2 r2 k3 d3 r3 r4 r5 r6
    by (simp only: initial_context_fields e0 e1 sz append_Nil simp_thms)
qed

end
